theory Spec2Isabelle
  imports Main
begin

section \<open>The data invocation layer of remix-server-runtime (data.ts)\<close>

text \<open>
  The functions of \<^verbatim>\<open>packages/remix-server-runtime/data.ts\<close> are embedded as HOL
  functions. A promise that rejects (a \<^verbatim>\<open>throw\<close> inside an async function) is the left
  summand of a sum, a promise that resolves the right one. The objects of the web platform
  the file works on (\<^verbatim>\<open>Headers\<close>, \<^verbatim>\<open>URL\<close>, \<^verbatim>\<open>URLSearchParams\<close>, \<^verbatim>\<open>Request\<close>,
  \<^verbatim>\<open>Response\<close>) are records and lists holding what their accessors return.
  A handler is a function from its argument to the way its promise settles; a handler
  whose promise never settles leaves the call pending for ever and is not modelled.
\<close>

subsection \<open>Headers\<close>

text \<open>
  A \<^verbatim>\<open>Headers\<close> object is its header list: names with values, in order. Names are
  compared without regard to ASCII case. Whether the list may be changed is decided by
  the guard of the object, which a response carries beside the list.
\<close>

type_synonym headers = "(string \<times> string) list"

definition toLowerCase :: "char \<Rightarrow> char" where
  "toLowerCase c =
     (let n = (of_char c :: nat) in if 65 \<le> n \<and> n \<le> 90 then char_of (n + 32) else c)"

definition sameName :: "string \<Rightarrow> string \<Rightarrow> bool" where
  "sameName a b = (map toLowerCase a = map toLowerCase b)"

text \<open>
  The change \<^verbatim>\<open>headers.set(name, value)\<close> makes to the list when the guard lets it: the
  first header of that name takes the value and the other headers of that name are
  removed; without one, the header is appended.
\<close>

fun headers_set :: "string \<Rightarrow> string \<Rightarrow> headers \<Rightarrow> headers" where
  "headers_set name v [] = [(name, v)]"
| "headers_set name v ((k, w) # hs) =
     (if sameName k name then (k, v) # filter (\<lambda>(k', _). \<not> sameName k' name) hs
      else (k, w) # headers_set name v hs)"

fun joinValues :: "string list \<Rightarrow> string" where
  "joinValues [] = []"
| "joinValues [v] = v"
| "joinValues (v # w # vs) = v @ '', '' @ joinValues (w # vs)"

text \<open>
  \<^verbatim>\<open>headers.get(name)\<close>: \<^verbatim>\<open>null\<close> (here \<open>None\<close>) without a header of that name, else
  the values of all headers of that name, joined by a comma and a space.
\<close>

definition headers_get :: "string \<Rightarrow> headers \<Rightarrow> string option" where
  "headers_get name hs =
     (case filter (\<lambda>(k, _). sameName k name) hs of
        [] \<Rightarrow> None
      | kvs \<Rightarrow> Some (joinValues (map snd kvs)))"

subsection \<open>URL, Request, Response\<close>

text \<open>
  A URL is held by its components, as \<^verbatim>\<open>new URL(request.url)\<close> exposes them: what
  precedes the path, the path, the decoded list of query parameters and the fragment.
  \<^verbatim>\<open>url.href\<close> followed by \<^verbatim>\<open>new URL\<close> gives the same components back, so a request
  carries them directly.
\<close>

type_synonym searchParams = "(string \<times> string) list"

record URL =
  origin :: string
  pathname :: string
  searchParams :: searchParams
  hash :: string

record request =
  req_method :: string
  req_url :: URL
  req_headers :: headers
  req_body :: string

text \<open>
  The guard of the \<^verbatim>\<open>Headers\<close> object of a response: "response" for a response made
  with \<^verbatim>\<open>new Response\<close>, "immutable" for one the platform made (the result of
  \<^verbatim>\<open>fetch\<close>, \<^verbatim>\<open>Response.error()\<close>, \<^verbatim>\<open>Response.redirect()\<close>).
\<close>

datatype headersGuard = ResponseGuard | ImmutableGuard

record response =
  status :: nat
  statusText :: string
  headers :: headers
  guard :: headersGuard
  body :: string

text \<open>The three methods of \<^verbatim>\<open>URLSearchParams\<close> that data.ts calls.\<close>

definition searchParams_getAll :: "string \<Rightarrow> searchParams \<Rightarrow> string list" where
  "searchParams_getAll name ps = map snd (filter (\<lambda>(k, _). k = name) ps)"

definition searchParams_delete :: "string \<Rightarrow> searchParams \<Rightarrow> searchParams" where
  "searchParams_delete name ps = filter (\<lambda>(k, _). k \<noteq> name) ps"

definition searchParams_append :: "string \<Rightarrow> string \<Rightarrow> searchParams \<Rightarrow> searchParams" where
  "searchParams_append name v ps = ps @ [(name, v)]"

subsection \<open>stripIndexParam and stripDataParam\<close>

text \<open>
  The first loop of \<^verbatim>\<open>stripIndexParam\<close>: push every truthy (non-empty) value.
\<close>

fun keepTruthy :: "string list \<Rightarrow> string list \<Rightarrow> string list" where
  "keepTruthy indexValuesToKeep [] = indexValuesToKeep"
| "keepTruthy indexValuesToKeep (indexValue # rest) =
     (if indexValue \<noteq> [] then keepTruthy (indexValuesToKeep @ [indexValue]) rest
      else keepTruthy indexValuesToKeep rest)"

text \<open>The second loop: append each kept value under the name \<^verbatim>\<open>index\<close>.\<close>

fun appendAll :: "searchParams \<Rightarrow> string list \<Rightarrow> searchParams" where
  "appendAll ps [] = ps"
| "appendAll ps (toKeep # rest) = appendAll (searchParams_append ''index'' toKeep ps) rest"

text \<open>
  \<^verbatim>\<open>new Request(url.href, request)\<close> is the request with its URL replaced: method,
  headers and body are taken from the old request.
\<close>

definition stripIndexParam :: "request \<Rightarrow> request" where
  "stripIndexParam request =
     (let url = req_url request;
          indexValues = searchParams_getAll ''index'' (searchParams url);
          url1 = url\<lparr>searchParams := searchParams_delete ''index'' (searchParams url)\<rparr>;
          indexValuesToKeep = keepTruthy [] indexValues;
          url2 = url1\<lparr>searchParams := appendAll (searchParams url1) indexValuesToKeep\<rparr>
      in request\<lparr>req_url := url2\<rparr>)"

definition stripDataParam :: "request \<Rightarrow> request" where
  "stripDataParam request =
     (let url = req_url request;
          url1 = url\<lparr>searchParams := searchParams_delete ''_data'' (searchParams url)\<rparr>
      in request\<lparr>req_url := url1\<rparr>)"

text \<open>
  The query the spec expects of the two together, in its words: the original parameters
  with every \<^verbatim>\<open>_data\<close> parameter and every \<^verbatim>\<open>index\<close> parameter of empty value removed.
\<close>

definition withoutInternalParams :: "searchParams \<Rightarrow> searchParams" where
  "withoutInternalParams ps =
     filter (\<lambda>(k, v). k \<noteq> ''_data'' \<and> \<not> (k = ''index'' \<and> v = [])) ps"

subsection \<open>Values, handlers and results\<close>

text \<open>
  Modelled from the spec: \<^verbatim>\<open>isResponse\<close> of \<^verbatim>\<open>./responses\<close>, which is not among the
  sources. The spec speaks of "a value that is itself a structured response object": among
  the values a handler can resolve to or throw, those are the ones built with
  \<open>JResponse\<close>, and the test \<^verbatim>\<open>isResponse(v)\<close> is the case distinction on that
  constructor. \<open>JError\<close> is an \<^verbatim>\<open>Error\<close> with its message, \<open>JTypeError\<close> a
  \<^verbatim>\<open>TypeError\<close> of the platform, \<open>JErrorResponse\<close> an
  \<^verbatim>\<open>ErrorResponse\<close> with the four arguments of its constructor (status, statusText,
  data, internal), and \<open>JData\<close> every other value.
\<close>

datatype 'd jsvalue =
    JUndefined
  | JNull
  | JData 'd
  | JResponse response
  | JError string
  | JTypeError
  | JErrorResponse nat string "'d jsvalue" bool

text \<open>
  \<^verbatim>\<open>isRedirectResponse\<close> and \<^verbatim>\<open>json\<close> come from \<^verbatim>\<open>./responses\<close> as well; the functions
  below take them as the parameters \<open>isRedirectResponse\<close> and \<open>json\<close>.
\<close>

record ('c, 'p) dataFunctionArgs =
  arg_request :: request
  arg_context :: 'c
  arg_params :: 'p

text \<open>The settled promise of a handler: resolved with a value, or rejected with one.\<close>

datatype 'd settled = Resolves "'d jsvalue" | Rejects "'d jsvalue"

type_synonym ('c, 'p, 'd) dataFunction = "('c, 'p) dataFunctionArgs \<Rightarrow> 'd settled"

text \<open>
  The result of a \<^verbatim>\<open>callRoute...\<close> function: \<open>Inl v\<close> when it throws \<open>v\<close>, \<open>Inr r\<close>
  when it returns the response \<open>r\<close>.
\<close>

type_synonym 'd callResult = "'d jsvalue + response"

text \<open>
  \<^verbatim>\<open>response.headers.set(name, value)\<close>: it throws a \<^verbatim>\<open>TypeError\<close> when the guard is
  "immutable"; it does nothing when the guard is "response" and the name is a forbidden
  response-header name (\<^verbatim>\<open>Set-Cookie\<close>, \<^verbatim>\<open>Set-Cookie2\<close>); otherwise it sets the header in
  the list. \<open>Inl\<close> is the value thrown, \<open>Inr\<close> the response after the call.
\<close>

definition response_headers_set :: "string \<Rightarrow> string \<Rightarrow> response \<Rightarrow> 'd jsvalue + response" where
  "response_headers_set name v r =
     (if guard r = ImmutableGuard then Inl JTypeError
      else if sameName name ''Set-Cookie'' \<or> sameName name ''Set-Cookie2'' then Inr r
      else Inr (r\<lparr>headers := headers_set name v (headers r)\<rparr>))"

subsection \<open>callRouteAction and callRouteLoader\<close>

text \<open>
  In \<^verbatim>\<open>callRouteAction\<close> and \<^verbatim>\<open>callRouteLoader\<close> the inner \<open>case\<close> is the
  \<^verbatim>\<open>try\<close>/\<^verbatim>\<open>catch\<close> block: \<open>Inl\<close> when the block throws, \<open>Inr result\<close> when control
  goes on with \<^verbatim>\<open>result\<close> assigned. \<^verbatim>\<open>error.headers.set\<close> stands in the \<^verbatim>\<open>catch\<close> clause
  with nothing around it, so a \<^verbatim>\<open>TypeError\<close> it throws leaves the function; when it
  returns it has changed the thrown response itself, so the response thrown again or
  assigned to \<^verbatim>\<open>result\<close> is the changed one. The optional flag \<^verbatim>\<open>isRemixRouterRequest\<close> is
  truthy exactly when it is \<open>Some True\<close>.
\<close>

definition callRouteAction ::
  "('d jsvalue \<Rightarrow> response) \<Rightarrow> (response \<Rightarrow> bool) \<Rightarrow> 'c \<Rightarrow> string \<Rightarrow>
   ('c, 'p, 'd) dataFunction option \<Rightarrow> 'p \<Rightarrow> request \<Rightarrow> bool option \<Rightarrow> 'd callResult" where
  \<open>callRouteAction json isRedirectResponse loadContext routeId action params request
     isRemixRouterRequest =
     (case action of
        None \<Rightarrow>
          (let path = pathname (req_url request);
               msg =
                 ''You made a '' @ req_method request @ '' request to "'' @ path @
                 ''" but did not provide '' @
                 ''an `action` for route "'' @ routeId @
                 ''", so there is no way to handle the request.''
           in Inl (JErrorResponse 405 ''Method Not Allowed'' (JError msg) True))
      | Some action \<Rightarrow>
          (case (case action \<lparr>arg_request = stripDataParam (stripIndexParam request),
                               arg_context = loadContext, arg_params = params\<rparr> of
                   Resolves result \<Rightarrow> Inr result
                 | Rejects error \<Rightarrow>
                     (case error of
                        JResponse r \<Rightarrow>
                          if \<not> isRedirectResponse r then
                            (case response_headers_set ''X-Remix-Catch'' ''yes'' r of
                               Inl typeError \<Rightarrow> Inl typeError
                             | Inr r' \<Rightarrow>
                                 if isRemixRouterRequest = Some True then Inl (JResponse r')
                                 else Inr (JResponse r'))
                          else Inr (JResponse r)
                      | _ \<Rightarrow> Inl error)) of
             Inl error \<Rightarrow> Inl error
           | Inr result \<Rightarrow>
               if result = JUndefined then
                 Inl (JError (''You defined an action for route "'' @ routeId @
                              ''" but didn't return '' @
                              ''anything from your `action` function. Please return a value or `null`.''))
               else Inr (case result of JResponse r \<Rightarrow> r | _ \<Rightarrow> json result)))\<close>

definition callRouteLoader ::
  "('d jsvalue \<Rightarrow> response) \<Rightarrow> (response \<Rightarrow> bool) \<Rightarrow> 'c \<Rightarrow> string \<Rightarrow>
   ('c, 'p, 'd) dataFunction option \<Rightarrow> 'p \<Rightarrow> request \<Rightarrow> bool option \<Rightarrow> 'd callResult" where
  \<open>callRouteLoader json isRedirectResponse loadContext routeId loader params request
     isRemixRouterRequest =
     (case loader of
        None \<Rightarrow>
          (let path = pathname (req_url request);
               msg =
                 ''You made a '' @ req_method request @ '' request to "'' @ path @
                 ''" but did not provide '' @
                 ''a `loader` for route "'' @ routeId @
                 ''", so there is no way to handle the request.''
           in Inl (JErrorResponse 405 ''Method Not Allowed'' (JError msg) True))
      | Some loader \<Rightarrow>
          (case (case loader \<lparr>arg_request = stripDataParam (stripIndexParam request),
                               arg_context = loadContext, arg_params = params\<rparr> of
                   Resolves result \<Rightarrow> Inr result
                 | Rejects error \<Rightarrow>
                     (case error of
                        JResponse r \<Rightarrow>
                          if \<not> isRedirectResponse r then
                            (case response_headers_set ''X-Remix-Catch'' ''yes'' r of
                               Inl typeError \<Rightarrow> Inl typeError
                             | Inr r' \<Rightarrow>
                                 if isRemixRouterRequest = Some True then Inl (JResponse r')
                                 else Inr (JResponse r'))
                          else Inr (JResponse r)
                      | _ \<Rightarrow> Inl error)) of
             Inl error \<Rightarrow> Inl error
           | Inr result \<Rightarrow>
               if result = JUndefined then
                 Inl (JError (''You defined a loader for route "'' @ routeId @
                              ''" but didn't return '' @
                              ''anything from your `loader` function. Please return a value or `null`.''))
               else Inr (case result of JResponse r \<Rightarrow> r | _ \<Rightarrow> json result)))\<close>

subsection \<open>callRouteActionRR and callRouteLoaderRR\<close>

text \<open>No \<^verbatim>\<open>try\<close> here: a rejected handler promise rejects the call with the same value.\<close>

definition callRouteActionRR ::
  "('d jsvalue \<Rightarrow> response) \<Rightarrow> 'c \<Rightarrow> ('c, 'p, 'd) dataFunction \<Rightarrow> 'p \<Rightarrow> request \<Rightarrow>
   string \<Rightarrow> 'd callResult" where
  \<open>callRouteActionRR json loadContext action params request routeId =
     (case action \<lparr>arg_request = stripDataParam (stripIndexParam request),
                   arg_context = loadContext, arg_params = params\<rparr> of
        Rejects error \<Rightarrow> Inl error
      | Resolves result \<Rightarrow>
          if result = JUndefined then
            Inl (JError (''You defined an action for route "'' @ routeId @
                         ''" but didn't return '' @
                         ''anything from your `action` function. Please return a value or `null`.''))
          else Inr (case result of JResponse r \<Rightarrow> r | _ \<Rightarrow> json result))\<close>

definition callRouteLoaderRR ::
  "('d jsvalue \<Rightarrow> response) \<Rightarrow> 'c \<Rightarrow> ('c, 'p, 'd) dataFunction \<Rightarrow> 'p \<Rightarrow> request \<Rightarrow>
   string \<Rightarrow> 'd callResult" where
  \<open>callRouteLoaderRR json loadContext loader params request routeId =
     (case loader \<lparr>arg_request = stripDataParam (stripIndexParam request),
                   arg_context = loadContext, arg_params = params\<rparr> of
        Rejects error \<Rightarrow> Inl error
      | Resolves result \<Rightarrow>
          if result = JUndefined then
            Inl (JError (''You defined a loader for route "'' @ routeId @
                         ''" but didn't return '' @
                         ''anything from your `loader` function. Please return a value or `null`.''))
          else Inr (case result of JResponse r \<Rightarrow> r | _ \<Rightarrow> json result))\<close>

subsection \<open>extractData\<close>

text \<open>
  The regular expression \<^verbatim>\<open>/\bapplication\/json\b/\<close>. A word character is one of
  \<^verbatim>\<open>[A-Za-z0-9_]\<close>; \<^verbatim>\<open>\b\<close> holds at a position when exactly one of the characters
  before and after it is a word character, the two ends of the string counting as none.
\<close>

definition isWordChar :: "char \<Rightarrow> bool" where
  "isWordChar c =
     (let n = (of_char c :: nat)
      in (65 \<le> n \<and> n \<le> 90) \<or> (97 \<le> n \<and> n \<le> 122) \<or> (48 \<le> n \<and> n \<le> 57) \<or> n = 95)"

fun wordAhead :: "string \<Rightarrow> bool" where
  "wordAhead [] = False"
| "wordAhead (c # cs) = isWordChar c"

definition wordBoundary :: "bool \<Rightarrow> string \<Rightarrow> bool" where
  "wordBoundary wordBefore rest = (wordBefore \<noteq> wordAhead rest)"

text \<open>
  A match that starts at the current position; \<open>wordBefore\<close> tells whether the character
  before the position is a word character.
\<close>

definition matchHere :: "bool \<Rightarrow> string \<Rightarrow> bool" where
  "matchHere wordBefore s =
     (wordBoundary wordBefore s \<and>
      take 16 s = ''application/json'' \<and>
      wordBoundary (isWordChar CHR ''n'') (drop 16 s))"

text \<open>\<^verbatim>\<open>regex.test\<close>: a match that starts at some position, tried from left to right.\<close>

fun regexTestFrom :: "bool \<Rightarrow> string \<Rightarrow> bool" where
  "regexTestFrom wordBefore [] = matchHere wordBefore []"
| "regexTestFrom wordBefore (c # cs) =
     (matchHere wordBefore (c # cs) \<or> regexTestFrom (isWordChar c) cs)"

definition regexTest :: "string \<Rightarrow> bool" where
  "regexTest s = regexTestFrom False s"

text \<open>
  Whether a word character stands before the position that follows \<open>pre\<close>, when
  \<open>wordBefore\<close> tells it for the position \<open>pre\<close> starts at.
\<close>

definition wordBehind :: "bool \<Rightarrow> string \<Rightarrow> bool" where
  "wordBehind wordBefore pre = (if pre = [] then wordBefore else isWordChar (last pre))"

text \<open>
  What the promise returned by \<^verbatim>\<open>extractData\<close> settles to. \<^verbatim>\<open>response.json()\<close> parses
  the body with the platform's JSON parser, the parameter \<open>parse\<close>, and rejects on a
  syntax error; \<^verbatim>\<open>response.text()\<close> gives the body as it is.
\<close>

datatype 'j extracted = ParsedJson 'j | JsonSyntaxError | RawText string

definition response_json :: "(string \<Rightarrow> 'j option) \<Rightarrow> response \<Rightarrow> 'j extracted" where
  "response_json parse r = (case parse (body r) of None \<Rightarrow> JsonSyntaxError | Some j \<Rightarrow> ParsedJson j)"

definition response_text :: "response \<Rightarrow> 'j extracted" where
  "response_text r = RawText (body r)"

text \<open>A string is truthy when it is not empty; \<^verbatim>\<open>null\<close> is falsy.\<close>

definition extractData :: "(string \<Rightarrow> 'j option) \<Rightarrow> response \<Rightarrow> 'j extracted" where
  "extractData parse r =
     (let contentType = headers_get ''Content-Type'' (headers r)
      in case contentType of
           None \<Rightarrow> response_text r
         | Some ct \<Rightarrow>
             if ct \<noteq> [] \<and> regexTest ct then response_json parse r else response_text r)"

text \<open>
  The spec's words for the test, "content-type \<^verbatim>\<open>application/json\<close>", read as the claim
  reads them: the value contains \<^verbatim>\<open>application/json\<close> as a token, that is, with no word
  character directly before or after it.
\<close>

definition containsJsonToken :: "string \<Rightarrow> bool" where
  "containsJsonToken s =
     (\<exists>pre post. s = pre @ ''application/json'' @ post \<and>
        (pre = [] \<or> \<not> isWordChar (last pre)) \<and> (post = [] \<or> \<not> isWordChar (hd post)))"

section \<open>The streaming response assembler and its abort governor\<close>

text \<open>
  Modelled from the spec: the streaming response assembler (spec 4.2) and the abort/timeout
  governor (spec 4.4). Their code is not among the sources, which hold only the server
  entry of a test application (\<^verbatim>\<open>setTimeout(abort, ABORT_DELAY)\<close>) and the browser test
  of it. Time is counted in ticks of the governor's timer.
\<close>

datatype phase = Building | ShellReady | Streaming | Completed | Aborted

type_synonym fieldPath = string

text \<open>The error of a rejection: the distinguished \<open>AbortedError\<close>, or one an application threw.\<close>

datatype errorInfo = AbortedError | ApplicationError string

datatype 'v chunk =
    InitialShell
  | ResolvedValue fieldPath 'v
  | RejectedValue fieldPath errorInfo

datatype 'v settlement = Fulfilled 'v | Failed errorInfo

record 'v assembler =
  phase :: phase
  pending :: "fieldPath list"
  chunks :: "'v chunk list"
  closed :: bool
  timer :: "nat option"

text \<open>\<open>Building\<close>: the pending fields are known, nothing has been sent.\<close>

definition building :: "fieldPath list \<Rightarrow> 'v assembler" where
  "building paths =
     \<lparr>phase = Building, pending = paths, chunks = [], closed = False, timer = None\<rparr>"

text \<open>\<open>ShellReady\<close>: the shell is flushed, first of all chunks.\<close>

definition flushShell :: "'v assembler \<Rightarrow> 'v assembler" where
  "flushShell a =
     (if phase a = Building then a\<lparr>phase := ShellReady, chunks := chunks a @ [InitialShell]\<rparr>
      else a)"

text \<open>\<open>Completed\<close> is reached when all pending promises have settled; the transport is closed
  and the timer disarmed.\<close>

definition completeWhenSettled :: "'v assembler \<Rightarrow> 'v assembler" where
  "completeWhenSettled a =
     (if pending a = [] then a\<lparr>phase := Completed, closed := True, timer := None\<rparr> else a)"

text \<open>\<open>Streaming\<close> begins, and with it the governor's timer of the configured delay.\<close>

definition beginStreaming :: "nat \<Rightarrow> 'v assembler \<Rightarrow> 'v assembler" where
  "beginStreaming delay a =
     (if phase a = ShellReady
      then completeWhenSettled (a\<lparr>phase := Streaming, timer := Some delay\<rparr>)
      else a)"

text \<open>
  The settlement of a pending field appends one chunk with the field path and the value or
  the error, and the field leaves the pending set. A field that is not pending, or an
  assembler that is not streaming, is left as it is.
\<close>

definition settle :: "fieldPath \<Rightarrow> 'v settlement \<Rightarrow> 'v assembler \<Rightarrow> 'v assembler" where
  "settle f outcome a =
     (if (phase a = Streaming \<or> phase a = Aborted) \<and> f \<in> set (pending a) then
        completeWhenSettled
          (a\<lparr>chunks := chunks a @
                 [case outcome of Fulfilled v \<Rightarrow> ResolvedValue f v
                                | Failed e \<Rightarrow> RejectedValue f e],
              pending := removeAll f (pending a)\<rparr>)
      else a)"

text \<open>
  \<open>Aborted\<close>: every still-pending promise is settled as rejected with \<open>AbortedError\<close>, and
  the assembler goes on as if all had rejected by themselves. A second abort has no effect.
\<close>

fun settleAll :: "fieldPath list \<Rightarrow> 'v settlement \<Rightarrow> 'v assembler \<Rightarrow> 'v assembler" where
  "settleAll [] outcome a = a"
| "settleAll (f # fs) outcome a = settleAll fs outcome (settle f outcome a)"

definition abort :: "'v assembler \<Rightarrow> 'v assembler" where
  "abort a =
     (if phase a = Streaming then
        completeWhenSettled
          (settleAll (pending a) (Failed AbortedError) (a\<lparr>phase := Aborted, timer := None\<rparr>))
      else a)"

text \<open>One tick of the timer: the delay elapses on the tick that finds at most one tick left.\<close>

definition tick :: "'v assembler \<Rightarrow> 'v assembler" where
  "tick a =
     (case timer a of
        None \<Rightarrow> a
      | Some n \<Rightarrow> if n \<le> 1 then abort a else a\<lparr>timer := Some (n - 1)\<rparr>)"

section \<open>Sample inputs\<close>

text \<open>Concrete requests, responses and parameters on which the functions are evaluated.\<close>

definition sampleRequest :: request where
  "sampleRequest =
     \<lparr>req_method = ''POST'',
      req_url = \<lparr>origin = ''http://localhost:3000'', pathname = ''/items'',
                 searchParams = [(''index'', []), (''_data'', ''routes/items''),
                                 (''index'', ''a''), (''q'', ''x'')],
                 hash = []\<rparr>,
      req_headers = [(''Content-Type'', ''text/plain'')],
      req_body = ''hello''\<rparr>"

definition reorderRequest :: request where
  "reorderRequest =
     \<lparr>req_method = ''GET'',
      req_url = \<lparr>origin = ''http://localhost:3000'', pathname = ''/items'',
                 searchParams = [(''index'', ''a''), (''foo'', ''b'')],
                 hash = []\<rparr>,
      req_headers = [],
      req_body = []\<rparr>"

definition badRequest :: response where
  "badRequest =
     \<lparr>status = 400, statusText = ''Bad Request'',
      headers = [(''Content-Type'', ''text/plain''), (''x-remix-catch'', ''no''),
                 (''X-REMIX-CATCH'', ''maybe'')],
      guard = ResponseGuard, body = ''bad''\<rparr>"

definition seeOther :: response where
  "seeOther =
     \<lparr>status = 303, statusText = ''See Other'', headers = [(''Location'', ''/login'')],
      guard = ResponseGuard, body = []\<rparr>"

definition jsonResponse :: response where
  \<open>jsonResponse =
     \<lparr>status = 200, statusText = ''OK'',
      headers = [(''content-type'', ''application/json; charset=utf-8'')],
      guard = ResponseGuard, body = ''{"a":1}''\<rparr>\<close>

definition htmlResponse :: response where
  "htmlResponse =
     \<lparr>status = 200, statusText = ''OK'', headers = [(''Content-Type'', ''text/html'')],
      guard = ResponseGuard, body = ''<p>hi</p>''\<rparr>"

text \<open>
  Stand-ins for the two parameters: a redirect is a response of status 301, 302, 303, 307
  or 308; \<open>sampleJson\<close> makes a response of a value given by its JSON text.
\<close>

definition sampleIsRedirect :: "response \<Rightarrow> bool" where
  "sampleIsRedirect r = (status r \<in> {301, 302, 303, 307, 308})"

definition sampleJson :: "string jsvalue \<Rightarrow> response" where
  "sampleJson v =
     \<lparr>status = 200, statusText = ''OK'',
      headers = [(''Content-Type'', ''application/json; charset=utf-8'')],
      guard = ResponseGuard,
      body = (case v of JData d \<Rightarrow> d | _ \<Rightarrow> ''null'')\<rparr>"

definition sampleParse :: "string \<Rightarrow> string option" where
  "sampleParse s = (if s = [] then None else Some s)"



text \<open>
  The assembler of the test application's route \<^verbatim>\<open>deferred-server-aborted\<close>, with a
  second pending field: the shell is flushed and streaming has begun with
  \<^verbatim>\<open>ABORT_DELAY = 1\<close>.
\<close>

definition sampleAssembler :: "string assembler" where
  "sampleAssembler = beginStreaming 1 (flushShell (building [''resolvedId'', ''other'']))"

section \<open>Properties of the data invocation layer\<close>

subsection \<open>The two loops and the normalized query\<close>

lemma keepTruthy_filter: "keepTruthy acc vs = acc @ filter (\<lambda>v. v \<noteq> []) vs"
  by (induction vs arbitrary: acc) simp_all

lemma appendAll_map: "appendAll ps vs = ps @ map (\<lambda>v. (''index'', v)) vs"
  by (induction vs arbitrary: ps) (simp_all add: searchParams_append_def)

lemma kept_index_params:
  "map (\<lambda>v. (''index'', v)) (filter (\<lambda>v. v \<noteq> []) (searchParams_getAll ''index'' ps)) =
   filter (\<lambda>(k, v). k = ''index'' \<and> v \<noteq> []) ps"
  by (induction ps) (auto simp: searchParams_getAll_def)

lemma stripIndexParam_searchParams:
  "searchParams (req_url (stripIndexParam request)) =
     filter (\<lambda>(k, v). k \<noteq> ''index'') (searchParams (req_url request)) @
     filter (\<lambda>(k, v). k = ''index'' \<and> v \<noteq> []) (searchParams (req_url request))"
  by (simp add: stripIndexParam_def Let_def keepTruthy_filter appendAll_map kept_index_params
      searchParams_delete_def)

lemma strip_searchParams:
  "searchParams (req_url (stripDataParam (stripIndexParam request))) =
     filter (\<lambda>(k, v). k \<noteq> ''_data'' \<and> k \<noteq> ''index'') (searchParams (req_url request)) @
     filter (\<lambda>(k, v). k = ''index'' \<and> v \<noteq> []) (searchParams (req_url request))"
proof -
  have "searchParams (req_url (stripDataParam r)) =
        filter (\<lambda>(k, v). k \<noteq> ''_data'') (searchParams (req_url r))" for r
    by (simp add: stripDataParam_def Let_def searchParams_delete_def)
  moreover have "filter (\<lambda>(k, v). k \<noteq> ''_data'') (filter (\<lambda>(k, v). k = ''index'' \<and> v \<noteq> []) ps) =
      filter (\<lambda>(k, v). k = ''index'' \<and> v \<noteq> []) ps" for ps :: searchParams
    by (induction ps) auto
  moreover have "filter (\<lambda>(k, v). k \<noteq> ''_data'') (filter (\<lambda>(k, v). k \<noteq> ''index'') ps) =
      filter (\<lambda>(k, v). k \<noteq> ''_data'' \<and> k \<noteq> ''index'') ps" for ps :: searchParams
    by (induction ps) auto
  ultimately show ?thesis
    by (simp add: stripIndexParam_searchParams)
qed

lemma strip_frame:
  "req_method (stripDataParam (stripIndexParam request)) = req_method request"
  "req_headers (stripDataParam (stripIndexParam request)) = req_headers request"
  "req_body (stripDataParam (stripIndexParam request)) = req_body request"
  "pathname (req_url (stripDataParam (stripIndexParam request))) = pathname (req_url request)"
  "origin (req_url (stripDataParam (stripIndexParam request))) = origin (req_url request)"
  "hash (req_url (stripDataParam (stripIndexParam request))) = hash (req_url request)"
  by (simp_all add: stripDataParam_def stripIndexParam_def Let_def)


subsection \<open>Reading a header that was just set\<close>










lemma seeOther_redirect: "sampleIsRedirect seeOther"
  by (simp add: sampleIsRedirect_def seeOther_def)

subsection \<open>Responses thrown by a handler\<close>




text \<open>
  C2. When the handler given to \<^verbatim>\<open>callRouteAction\<close> or \<^verbatim>\<open>callRouteLoader\<close> throws a
  redirect response, the call returns that very response as its result, whatever
  \<^verbatim>\<open>isRemixRouterRequest\<close> is: it is not tagged and not thrown again.
\<close>

theorem thrown_redirect_is_returned:
  assumes "handler \<lparr>arg_request = stripDataParam (stripIndexParam request),
                    arg_context = loadContext, arg_params = params\<rparr> = Rejects (JResponse r)"
    and "isRedirectResponse r"
  shows "callRouteAction json isRedirectResponse loadContext routeId (Some handler) params request
             isRemixRouterRequest = Inr r \<and>
         callRouteLoader json isRedirectResponse loadContext routeId (Some handler) params request
             isRemixRouterRequest = Inr r"
  using assms by (simp add: callRouteAction_def callRouteLoader_def)

theorem thrown_redirect_is_returned_witness:
  "callRouteAction sampleJson sampleIsRedirect () ''routes/items''
       (Some (\<lambda>_. Rejects (JResponse seeOther))) [(''id'', ''7'')] sampleRequest (Some True) =
     Inr seeOther \<and>
   callRouteLoader sampleJson sampleIsRedirect () ''routes/items''
       (Some (\<lambda>_. Rejects (JResponse seeOther))) [(''id'', ''7'')] sampleRequest (Some True) =
     Inr seeOther"
  using
    thrown_redirect_is_returned [where handler = "\<lambda>_. Rejects (JResponse seeOther)"
      and r = seeOther and isRedirectResponse = sampleIsRedirect and json = sampleJson
      and loadContext = "()" and routeId = "''routes/items''" and params = "[(''id'', ''7'')]"
      and request = sampleRequest and isRemixRouterRequest = "Some True",
      OF refl seeOther_redirect]
  by simp

subsection \<open>A missing handler\<close>

text \<open>
  C3. Without a handler (no \<^verbatim>\<open>action\<close> for \<^verbatim>\<open>callRouteAction\<close>, no \<^verbatim>\<open>loader\<close> for
  \<^verbatim>\<open>callRouteLoader\<close>) the call throws an \<^verbatim>\<open>ErrorResponse\<close> of status 405,
  "Method Not Allowed", whose message holds the request method, the pathname of the
  request URL and the route id of the missing handler, in the text written out below.
\<close>

theorem missing_handler_405:
  \<open>callRouteAction json isRedirectResponse loadContext routeId None params request
       isRemixRouterRequest =
     Inl (JErrorResponse 405 ''Method Not Allowed''
            (JError (''You made a '' @ req_method request @ '' request to "'' @
                     pathname (req_url request) @
                     ''" but did not provide an `action` for route "'' @ routeId @
                     ''", so there is no way to handle the request.''))
            True) \<and>
   callRouteLoader json isRedirectResponse loadContext routeId None params request
       isRemixRouterRequest =
     Inl (JErrorResponse 405 ''Method Not Allowed''
            (JError (''You made a '' @ req_method request @ '' request to "'' @
                     pathname (req_url request) @
                     ''" but did not provide a `loader` for route "'' @ routeId @
                     ''", so there is no way to handle the request.''))
            True)\<close>
  by (simp add: callRouteAction_def callRouteLoader_def)

theorem missing_handler_405_witness:
  \<open>callRouteAction sampleJson sampleIsRedirect () ''routes/items'' None [(''id'', ''7'')]
       sampleRequest None =
     Inl (JErrorResponse 405 ''Method Not Allowed''
            (JError (''You made a POST request to "/items" but did not provide '' @
                     ''an `action` for route "routes/items", so there is no way to handle the request.''))
            True) \<and>
   callRouteLoader sampleJson sampleIsRedirect () ''routes/items'' None [(''id'', ''7'')]
       sampleRequest None =
     Inl (JErrorResponse 405 ''Method Not Allowed''
            (JError (''You made a POST request to "/items" but did not provide '' @
                     ''a `loader` for route "routes/items", so there is no way to handle the request.''))
            True)\<close>
  using missing_handler_405 [where json = sampleJson and isRedirectResponse = sampleIsRedirect
      and loadContext = "()" and routeId = "''routes/items''" and params = "[(''id'', ''7'')]"
      and request = sampleRequest and isRemixRouterRequest = None]
  by (simp add: sampleRequest_def)

subsection \<open>What a handler resolves to\<close>

text \<open>
  C4. When the handler resolves to \<^verbatim>\<open>undefined\<close>, each of \<^verbatim>\<open>callRouteAction\<close>,
  \<^verbatim>\<open>callRouteLoader\<close>, \<^verbatim>\<open>callRouteActionRR\<close> and \<^verbatim>\<open>callRouteLoaderRR\<close> throws an error
  whose message holds the route id and the kind of handler (action or loader), in the text
  written out below; no response is returned.
\<close>

theorem undefined_result_fails:
  assumes "handler \<lparr>arg_request = stripDataParam (stripIndexParam request),
                    arg_context = loadContext, arg_params = params\<rparr> = Resolves JUndefined"
  shows
    \<open>callRouteAction json isRedirectResponse loadContext routeId (Some handler) params request
         isRemixRouterRequest =
       Inl (JError (''You defined an action for route "'' @ routeId @
                    ''" but didn't return anything from your `action` function. '' @
                    ''Please return a value or `null`.'')) \<and>
     callRouteLoader json isRedirectResponse loadContext routeId (Some handler) params request
         isRemixRouterRequest =
       Inl (JError (''You defined a loader for route "'' @ routeId @
                    ''" but didn't return anything from your `loader` function. '' @
                    ''Please return a value or `null`.'')) \<and>
     callRouteActionRR json loadContext handler params request routeId =
       Inl (JError (''You defined an action for route "'' @ routeId @
                    ''" but didn't return anything from your `action` function. '' @
                    ''Please return a value or `null`.'')) \<and>
     callRouteLoaderRR json loadContext handler params request routeId =
       Inl (JError (''You defined a loader for route "'' @ routeId @
                    ''" but didn't return anything from your `loader` function. '' @
                    ''Please return a value or `null`.''))\<close>
  using assms
  by (simp add: callRouteAction_def callRouteLoader_def callRouteActionRR_def
      callRouteLoaderRR_def)

theorem undefined_result_fails_witness:
  \<open>callRouteAction sampleJson sampleIsRedirect () ''routes/items''
       (Some (\<lambda>_. Resolves JUndefined)) [(''id'', ''7'')] sampleRequest None =
     Inl (JError (''You defined an action for route "routes/items" but didn't return '' @
                  ''anything from your `action` function. Please return a value or `null`.'')) \<and>
   callRouteLoaderRR sampleJson () (\<lambda>_. Resolves JUndefined) [(''id'', ''7'')] sampleRequest
       ''routes/items'' =
     Inl (JError (''You defined a loader for route "routes/items" but didn't return '' @
                  ''anything from your `loader` function. Please return a value or `null`.''))\<close>
  using undefined_result_fails [where handler = "\<lambda>_. Resolves JUndefined"
      and json = sampleJson and isRedirectResponse = sampleIsRedirect
      and loadContext = "()" and routeId = "''routes/items''" and params = "[(''id'', ''7'')]"
      and request = sampleRequest and isRemixRouterRequest = None, OF refl]
  by simp

text \<open>
  C5. When the handler resolves to a value other than \<^verbatim>\<open>undefined\<close>, each of the four
  functions returns that value itself if it is a response, and \<^verbatim>\<open>json\<close> of it otherwise.
\<close>

theorem defined_result_is_response_or_json:
  assumes "handler \<lparr>arg_request = stripDataParam (stripIndexParam request),
                    arg_context = loadContext, arg_params = params\<rparr> = Resolves result"
    and "result \<noteq> JUndefined"
  shows "callRouteAction json isRedirectResponse loadContext routeId (Some handler) params request
             isRemixRouterRequest = Inr (case result of JResponse r \<Rightarrow> r | _ \<Rightarrow> json result) \<and>
         callRouteLoader json isRedirectResponse loadContext routeId (Some handler) params request
             isRemixRouterRequest = Inr (case result of JResponse r \<Rightarrow> r | _ \<Rightarrow> json result) \<and>
         callRouteActionRR json loadContext handler params request routeId =
             Inr (case result of JResponse r \<Rightarrow> r | _ \<Rightarrow> json result) \<and>
         callRouteLoaderRR json loadContext handler params request routeId =
             Inr (case result of JResponse r \<Rightarrow> r | _ \<Rightarrow> json result)"
  using assms
  by (simp add: callRouteAction_def callRouteLoader_def callRouteActionRR_def
      callRouteLoaderRR_def)

theorem defined_result_is_response_or_json_witness:
  \<open>callRouteAction sampleJson sampleIsRedirect () ''routes/items''
       (Some (\<lambda>_. Resolves (JResponse htmlResponse))) [(''id'', ''7'')] sampleRequest None =
     Inr htmlResponse \<and>
   callRouteLoaderRR sampleJson () (\<lambda>_. Resolves (JData ''{"a":1}'')) [(''id'', ''7'')]
       sampleRequest ''routes/items'' =
     Inr \<lparr>status = 200, statusText = ''OK'',
          headers = [(''Content-Type'', ''application/json; charset=utf-8'')],
          guard = ResponseGuard, body = ''{"a":1}''\<rparr>\<close>
  using
    defined_result_is_response_or_json [where handler = "\<lambda>_. Resolves (JResponse htmlResponse)"
      and result = "JResponse htmlResponse"
      and json = sampleJson and isRedirectResponse = sampleIsRedirect
      and loadContext = "()" and routeId = "''routes/items''" and params = "[(''id'', ''7'')]"
      and request = sampleRequest and isRemixRouterRequest = None, OF refl]
    defined_result_is_response_or_json [where handler = \<open>\<lambda>_. Resolves (JData ''{"a":1}'')\<close>
      and result = \<open>JData ''{"a":1}''\<close>
      and json = sampleJson and isRedirectResponse = sampleIsRedirect
      and loadContext = "()" and routeId = "''routes/items''" and params = "[(''id'', ''7'')]"
      and request = sampleRequest and isRemixRouterRequest = None, OF refl]
  by (simp add: sampleJson_def)

subsection \<open>The request a handler is given\<close>




text \<open>
  C9, as the code has it. The query of the normalized request is the original one without
  its \<^verbatim>\<open>_data\<close> and \<^verbatim>\<open>index\<close> parameters, in the original order, followed by the
  \<^verbatim>\<open>index\<close> parameters of non-empty value in their original order among themselves: these
  move behind all other parameters. Pathname, origin and fragment of the URL and method,
  headers and body of the request stay as they are. Parameters are compared as decoded
  names and values.
\<close>

theorem normalized_url_moves_index_last:
  "searchParams (req_url (stripDataParam (stripIndexParam request))) =
     filter (\<lambda>(k, v). k \<noteq> ''_data'' \<and> k \<noteq> ''index'') (searchParams (req_url request)) @
     filter (\<lambda>(k, v). k = ''index'' \<and> v \<noteq> []) (searchParams (req_url request)) \<and>
   pathname (req_url (stripDataParam (stripIndexParam request))) = pathname (req_url request) \<and>
   origin (req_url (stripDataParam (stripIndexParam request))) = origin (req_url request) \<and>
   hash (req_url (stripDataParam (stripIndexParam request))) = hash (req_url request) \<and>
   req_method (stripDataParam (stripIndexParam request)) = req_method request \<and>
   req_headers (stripDataParam (stripIndexParam request)) = req_headers request \<and>
   req_body (stripDataParam (stripIndexParam request)) = req_body request"
  using strip_searchParams [of request] by (simp add: strip_frame)

theorem normalized_url_moves_index_last_witness:
  "stripDataParam (stripIndexParam sampleRequest) =
     sampleRequest\<lparr>req_url := (req_url sampleRequest)\<lparr>searchParams :=
                                   [(''q'', ''x''), (''index'', ''a'')]\<rparr>\<rparr>"
  using normalized_url_moves_index_last [of sampleRequest]
  by (simp add: sampleRequest_def stripDataParam_def stripIndexParam_def Let_def)

text \<open>
  C9, as the spec has it, fails: for the query \<^verbatim>\<open>?index=a&foo=b\<close> nothing is to be
  removed, yet the normalized query is \<^verbatim>\<open>?foo=b&index=a\<close>.
\<close>

theorem normalized_url_not_filtered:
  "searchParams (req_url (stripDataParam (stripIndexParam reorderRequest))) =
     [(''foo'', ''b''), (''index'', ''a'')] \<and>
   withoutInternalParams (searchParams (req_url reorderRequest)) =
     [(''index'', ''a''), (''foo'', ''b'')] \<and>
   searchParams (req_url (stripDataParam (stripIndexParam reorderRequest))) \<noteq>
     withoutInternalParams (searchParams (req_url reorderRequest))"
  by (simp add: reorderRequest_def stripDataParam_def stripIndexParam_def Let_def
      searchParams_getAll_def searchParams_delete_def searchParams_append_def
      withoutInternalParams_def)

subsection \<open>Throws in the RR entry points\<close>

text \<open>
  C10. \<^verbatim>\<open>callRouteActionRR\<close> and \<^verbatim>\<open>callRouteLoaderRR\<close> catch nothing: whatever the handler
  throws, a response (redirect or not) included, is thrown by the call as it is, so it is
  not tagged with \<^verbatim>\<open>X-Remix-Catch\<close>.
\<close>

theorem rr_throw_propagates:
  assumes "handler \<lparr>arg_request = stripDataParam (stripIndexParam request),
                    arg_context = loadContext, arg_params = params\<rparr> = Rejects error"
  shows "callRouteActionRR json loadContext handler params request routeId = Inl error \<and>
         callRouteLoaderRR json loadContext handler params request routeId = Inl error"
  using assms by (simp add: callRouteActionRR_def callRouteLoaderRR_def)

theorem rr_throw_propagates_witness:
  "callRouteActionRR sampleJson () (\<lambda>_. Rejects (JResponse badRequest)) [(''id'', ''7'')]
       sampleRequest ''routes/items'' = Inl (JResponse badRequest) \<and>
   callRouteLoaderRR sampleJson () (\<lambda>_. Rejects (JResponse seeOther)) [(''id'', ''7'')]
       sampleRequest ''routes/items'' = Inl (JResponse seeOther) \<and>
   headers_get ''X-Remix-Catch'' (headers seeOther) = None"
proof -
  have "headers_get ''X-Remix-Catch'' (headers seeOther) = None"
    by code_simp
  with
    rr_throw_propagates [where handler = "\<lambda>_. Rejects (JResponse badRequest)"
      and error = "JResponse badRequest" and json = sampleJson
      and loadContext = "()" and routeId = "''routes/items''" and params = "[(''id'', ''7'')]"
      and request = sampleRequest, OF refl]
    rr_throw_propagates [where handler = "\<lambda>_. Rejects (JResponse seeOther)"
      and error = "JResponse seeOther" and json = sampleJson
      and loadContext = "()" and routeId = "''routes/items''" and params = "[(''id'', ''7'')]"
      and request = sampleRequest, OF refl]
  show ?thesis by simp
qed

subsection \<open>extractData and the regular expression\<close>

lemma isWordChar_a: "isWordChar CHR ''a''" and isWordChar_n: "isWordChar CHR ''n''"
  by (simp_all add: isWordChar_def)

lemma take16_iff: "take 16 s = ''application/json'' \<longleftrightarrow> (\<exists>post. s = ''application/json'' @ post)"
proof
  assume h: "take 16 s = ''application/json''"
  have "s = take 16 s @ drop 16 s" by simp
  with h show "\<exists>post. s = ''application/json'' @ post" by metis
next
  assume "\<exists>post. s = ''application/json'' @ post"
  then show "take 16 s = ''application/json''" by auto
qed

lemma matchHere_iff:
  "matchHere wordBefore s \<longleftrightarrow>
     \<not> wordBefore \<and> (\<exists>post. s = ''application/json'' @ post \<and> \<not> wordAhead post)"
proof (cases "take 16 s = ''application/json''")
  case True
  then obtain post where s: "s = ''application/json'' @ post"
    using take16_iff by blast
  have "wordAhead s" using s isWordChar_a by simp
  moreover have "drop 16 s = post" using s by simp
  ultimately show ?thesis
    using s isWordChar_n by (auto simp: matchHere_def wordBoundary_def)
next
  case False
  then show ?thesis using take16_iff by (auto simp: matchHere_def)
qed

text \<open>The scan finds a match exactly when the string splits around one.\<close>

lemma regexTestFrom_iff:
  "regexTestFrom wordBefore s \<longleftrightarrow>
     (\<exists>pre post. s = pre @ ''application/json'' @ post \<and>
        \<not> wordBehind wordBefore pre \<and> \<not> wordAhead post)"
proof (induction s arbitrary: wordBefore)
  case Nil
  show ?case by (simp add: matchHere_iff)
next
  case (Cons c cs)
  show ?case (is "?L \<longleftrightarrow> ?R")
  proof
    assume ?L
    then consider "matchHere wordBefore (c # cs)" | "regexTestFrom (isWordChar c) cs"
      by auto
    then show ?R
    proof cases
      case 1
      then obtain post where "c # cs = [] @ ''application/json'' @ post"
        "\<not> wordBehind wordBefore []" "\<not> wordAhead post"
        by (auto simp: matchHere_iff wordBehind_def)
      then show ?thesis by blast
    next
      case 2
      then obtain pre post where p: "cs = pre @ ''application/json'' @ post"
        "\<not> wordBehind (isWordChar c) pre" "\<not> wordAhead post"
        using Cons.IH by blast
      then have "c # cs = (c # pre) @ ''application/json'' @ post"
        "\<not> wordBehind wordBefore (c # pre)"
        by (auto simp: wordBehind_def split: if_splits)
      with p(3) show ?thesis by blast
    qed
  next
    assume ?R
    then obtain pre post where p: "c # cs = pre @ ''application/json'' @ post"
      "\<not> wordBehind wordBefore pre" "\<not> wordAhead post"
      by blast
    show ?L
    proof (cases pre)
      case Nil
      with p have "matchHere wordBefore (c # cs)"
        by (auto simp: matchHere_iff wordBehind_def)
      then show ?thesis by simp
    next
      case (Cons d pre')
      with p have "cs = pre' @ ''application/json'' @ post" "d = c"
        "\<not> wordBehind (isWordChar c) pre'"
        by (auto simp: wordBehind_def split: if_splits)
      with p(3) have "regexTestFrom (isWordChar c) cs"
        using Cons.IH by blast
      then show ?thesis by simp
    qed
  qed
qed

lemma wordAhead_iff: "\<not> wordAhead post \<longleftrightarrow> post = [] \<or> \<not> isWordChar (hd post)"
  by (cases post) simp_all

lemma wordBehind_iff: "\<not> wordBehind False pre \<longleftrightarrow> pre = [] \<or> \<not> isWordChar (last pre)"
  by (simp add: wordBehind_def)

lemma regexTest_containsJsonToken: "regexTest s = containsJsonToken s"
  unfolding regexTest_def regexTestFrom_iff containsJsonToken_def wordBehind_iff wordAhead_iff
  by (rule refl)

lemma containsJsonToken_Nil: "\<not> containsJsonToken []"
  by (simp add: containsJsonToken_def)

lemma jsonResponse_contentType:
  "headers_get ''Content-Type'' (headers jsonResponse) = Some ''application/json; charset=utf-8''"
  by code_simp

lemma htmlResponse_contentType:
  "headers_get ''Content-Type'' (headers htmlResponse) = Some ''text/html''"
  by code_simp

lemma json_charset_token: "containsJsonToken ''application/json; charset=utf-8''"
proof -
  have "regexTest ''application/json; charset=utf-8''" by code_simp
  then show ?thesis by (simp add: regexTest_containsJsonToken)
qed

lemma html_no_token: "\<not> containsJsonToken ''text/html''"
proof -
  have "\<not> regexTest ''text/html''" by code_simp
  then show ?thesis by (simp add: regexTest_containsJsonToken)
qed

text \<open>
  C7. \<^verbatim>\<open>extractData\<close> reads the body with \<^verbatim>\<open>response.json()\<close> when the response has a
  \<^verbatim>\<open>Content-Type\<close> header whose value contains the token \<^verbatim>\<open>application/json\<close>, and with
  \<^verbatim>\<open>response.text()\<close>, as raw text, for every other response: another content type, an
  empty one, or none.
\<close>

theorem extractData_by_content_type:
  "extractData parse r =
     (if \<exists>ct. headers_get ''Content-Type'' (headers r) = Some ct \<and> containsJsonToken ct
      then response_json parse r else response_text r)"
  using containsJsonToken_Nil
  by (auto simp: extractData_def Let_def regexTest_containsJsonToken split: option.splits)

theorem extractData_by_content_type_witness:
  \<open>extractData sampleParse jsonResponse = ParsedJson ''{"a":1}'' \<and>
   extractData sampleParse htmlResponse = RawText ''<p>hi</p>''\<close>
proof -
  have "extractData sampleParse jsonResponse = response_json sampleParse jsonResponse"
    using extractData_by_content_type [of sampleParse jsonResponse]
      jsonResponse_contentType json_charset_token by simp
  moreover have "extractData sampleParse htmlResponse = response_text htmlResponse"
    using extractData_by_content_type [of sampleParse htmlResponse]
      htmlResponse_contentType html_no_token by simp
  ultimately show ?thesis
    by (simp add: response_json_def response_text_def sampleParse_def jsonResponse_def
        htmlResponse_def)
qed

section \<open>Properties of the assembler under abort\<close>

text \<open>
  Forced settlement of all pending fields of an aborted assembler: one rejected chunk for
  each, in order, and then completion.
\<close>

lemma settleAll_pending:
  assumes "phase a = Aborted" and "pending a = fs" and "distinct fs" and "fs \<noteq> []"
  shows "phase (settleAll fs (Failed e) a) = Completed \<and>
         closed (settleAll fs (Failed e) a) \<and>
         pending (settleAll fs (Failed e) a) = [] \<and>
         chunks (settleAll fs (Failed e) a) = chunks a @ map (\<lambda>f. RejectedValue f e) fs"
  using assms
proof (induction fs arbitrary: a)
  case Nil
  then show ?case by simp
next
  case (Cons f fs)
  let ?a1 = "settle f (Failed e) a"
  have rm: "removeAll f (f # fs) = fs"
    using Cons.prems(3) by simp
  show ?case
  proof (cases "fs = []")
    case True
    with Cons.prems rm show ?thesis
      by (simp add: settle_def completeWhenSettled_def)
  next
    case False
    with Cons.prems rm have a1: "phase ?a1 = Aborted" "pending ?a1 = fs"
      "chunks ?a1 = chunks a @ [RejectedValue f e]"
      by (simp_all add: settle_def completeWhenSettled_def)
    from Cons.prems(3) have "distinct fs" by simp
    from Cons.IH [OF a1(1) a1(2) this False] a1(3) show ?thesis by simp
  qed
qed

lemma abort_streaming:
  assumes "phase a = Streaming" and "distinct (pending a)"
  shows "phase (abort a) = Completed \<and> closed (abort a) \<and> pending (abort a) = [] \<and>
         chunks (abort a) = chunks a @ map (\<lambda>f. RejectedValue f AbortedError) (pending a)"
proof (cases "pending a = []")
  case True
  with assms show ?thesis by (simp add: abort_def completeWhenSettled_def)
next
  case False
  let ?b = "a\<lparr>phase := Aborted, timer := None\<rparr>"
  have "phase ?b = Aborted" "pending ?b = pending a" by simp_all
  from settleAll_pending [OF this assms(2) False, of AbortedError] assms(1)
  show ?thesis by (simp add: abort_def completeWhenSettled_def)
qed

lemma sample_streaming:
  "sampleAssembler =
     \<lparr>phase = Streaming, pending = [''resolvedId'', ''other''], chunks = [InitialShell],
      closed = False, timer = Some 1\<rparr>"
  by (simp add: sampleAssembler_def beginStreaming_def flushShell_def building_def
      completeWhenSettled_def)

text \<open>
  C8. When the abort delay elapses while the assembler is streaming with N fields still
  pending (their paths distinct), the tick of expiry settles every one of them as rejected
  with the distinguished \<open>AbortedError\<close>, appends one rejected chunk for each, N in all,
  and leaves the assembler \<open>Completed\<close> with the transport closed: the stream ends on the
  tick of expiry itself.
\<close>

theorem abort_delay_rejects_all_pending:
  assumes "phase a = Streaming" and "timer a = Some n" and "n \<le> 1"
    and "distinct (pending a)"
  shows "phase (tick a) = Completed \<and> closed (tick a) \<and> pending (tick a) = [] \<and>
         chunks (tick a) = chunks a @ map (\<lambda>f. RejectedValue f AbortedError) (pending a) \<and>
         length (chunks (tick a)) = length (chunks a) + length (pending a)"
  using assms abort_streaming [OF assms(1) assms(4)] by (simp add: tick_def)

theorem abort_delay_rejects_all_pending_witness:
  "phase (tick sampleAssembler) = Completed \<and>
   closed (tick sampleAssembler) \<and>
   pending (tick sampleAssembler) = [] \<and>
   chunks (tick sampleAssembler) =
     [InitialShell, RejectedValue ''resolvedId'' AbortedError,
      RejectedValue ''other'' AbortedError]"
  using abort_delay_rejects_all_pending [where a = sampleAssembler and n = 1]
  by (simp add: sample_streaming)

end
